theory Spec2Isabelle
  imports Main
begin

section \<open>The halting-problem sketch of \<^verbatim>\<open>halting.py\<close>\<close>

text \<open>
  The module defines two functions.
  \<^verbatim>\<open>
  def will_freeze(f, x) -> bool:
      """..."""
      pass  # Possible to implement?

  def opposite(f):
      if will_freeze(f, f):
          return False
      else:
          while True:
              print("Infinite loop")
  \<close>
  The rest of the file is a string literal holding the prose argument.
\<close>

subsection \<open>Values\<close>

text \<open>
  The function objects the module binds are \<^verbatim>\<open>will_freeze\<close> and \<^verbatim>\<open>opposite\<close>.
  The other values that occur are \<^verbatim>\<open>None\<close> (what a body of \<^verbatim>\<open>pass\<close> returns),
  the booleans and the string passed to \<^verbatim>\<open>print\<close>.
\<close>

datatype pyfun = Will_freeze | Opposite

datatype pyval = PyNone | PyBool bool | PyStr string | PyFun pyfun

text \<open>Python's truth test, as the \<^verbatim>\<open>if\<close> of \<^verbatim>\<open>opposite\<close> applies it to the predictor's result.\<close>

fun truthy :: "pyval \<Rightarrow> bool" where
  "truthy PyNone = False"
| "truthy (PyBool b) = b"
| "truthy (PyStr s) = (s \<noteq> [])"
| "truthy (PyFun g) = True"

subsection \<open>Observable actions and outcomes\<close>

text \<open>
  A run is observed through the sequence of actions it performs, oldest first: a call of
  the predictor with its two arguments, and a line written by \<^verbatim>\<open>print\<close>.
\<close>

datatype event = Call_will_freeze pyval pyval | Print string

datatype py_error = TypeError | BrokenPipeError

text \<open>
  How a call ends. \<open>Still_running\<close> is the value of a run whose loop has used up the
  iterations it was given: a call diverges when it is \<open>Still_running\<close> for every bound.
\<close>

datatype outcome = Returned pyval | Raised py_error | Still_running



subsection \<open>The predictor\<close>

text \<open>
  A predictor is a total function of a function and an input that has no effect of its own.
  The module's \<^verbatim>\<open>will_freeze\<close> is one: its body is a docstring and \<^verbatim>\<open>pass\<close>, so the
  call returns \<^verbatim>\<open>None\<close>.
\<close>

type_synonym predictor = "pyval \<Rightarrow> pyval \<Rightarrow> pyval"

definition will_freeze :: predictor where
  "will_freeze f x = PyNone"

text \<open>A candidate implementation that answers with a boolean, as the annotation asks.\<close>

definition bool_predictor :: "(pyval \<Rightarrow> pyval \<Rightarrow> bool) \<Rightarrow> predictor" where
  "bool_predictor p f x = PyBool (p f x)"

subsection \<open>The counter-example function\<close>

text \<open>
  \<^verbatim>\<open>while True: print("Infinite loop")\<close>. The loop has no exit; \<open>n\<close> bounds the
  iterations that are run, and the trace holds what has been printed so far.
\<close>

fun while_true :: "nat \<Rightarrow> event list \<Rightarrow> event list \<times> outcome" where
  "while_true 0 tr = (tr, Still_running)"
| "while_true (Suc n) tr = while_true n (tr @ [Print ''Infinite loop''])"

text \<open>
  \<^verbatim>\<open>opposite(f)\<close> over the predictor \<open>predict\<close> that the global name \<^verbatim>\<open>will_freeze\<close> is
  bound to, started after the actions \<open>tr\<close>.
\<close>

definition opposite :: "nat \<Rightarrow> predictor \<Rightarrow> pyval \<Rightarrow> event list \<Rightarrow> event list \<times> outcome" where
  "opposite n predict f tr =
     (let tr1 = tr @ [Call_will_freeze f f]
      in if truthy (predict f f) then (tr1, Returned (PyBool False))
         else while_true n tr1)"

subsection \<open>Calling a value on one argument\<close>

text \<open>
  The call \<^verbatim>\<open>g(x)\<close> that the docstring of \<^verbatim>\<open>will_freeze\<close> and the prose argument speak of
  (\<^verbatim>\<open>opposite(opposite)\<close>). Of the module's values only \<^verbatim>\<open>opposite\<close> accepts one argument:
  \<^verbatim>\<open>will_freeze\<close> has two required parameters, and \<^verbatim>\<open>None\<close>, booleans and strings are not
  callable; Python raises \<^verbatim>\<open>TypeError\<close> for those.
\<close>

fun py_call :: "nat \<Rightarrow> predictor \<Rightarrow> pyval \<Rightarrow> pyval \<Rightarrow> event list \<Rightarrow> event list \<times> outcome" where
  "py_call n predict (PyFun Opposite) x tr = opposite n predict x tr"
| "py_call n predict (PyFun Will_freeze) x tr = (tr, Raised TypeError)"
| "py_call n predict PyNone x tr = (tr, Raised TypeError)"
| "py_call n predict (PyBool b) x tr = (tr, Raised TypeError)"
| "py_call n predict (PyStr s) x tr = (tr, Raised TypeError)"


subsection \<open>The predictor as a run\<close>

text \<open>
  The call \<^verbatim>\<open>will_freeze(f, x)\<close> in the shape of a run, like \<^verbatim>\<open>opposite\<close>: a bound on
  loop iterations, the actions done before, and the actions and the outcome after. The
  body is a docstring and \<^verbatim>\<open>pass\<close>: it has no loop, makes no call, prints nothing and
  falls off its end, which returns \<^verbatim>\<open>None\<close>.
\<close>

definition will_freeze_run :: "nat \<Rightarrow> pyval \<Rightarrow> pyval \<Rightarrow> event list \<Rightarrow> event list \<times> outcome" where
  "will_freeze_run n f x tr = (tr, Returned PyNone)"

subsection \<open>Standard output that can fail\<close>

text \<open>
  \<^verbatim>\<open>while_true\<close> and \<^verbatim>\<open>opposite\<close> above take every \<^verbatim>\<open>print\<close> to succeed. A write to
  standard output can fail (a closed pipe gives \<^verbatim>\<open>BrokenPipeError\<close>), and then \<^verbatim>\<open>print\<close>
  raises. The device says, for the next write and the ones after it, whether the write
  succeeds (\<open>None\<close>) or which error it raises; \<open>dev 0\<close> is the next write.
\<close>

type_synonym stdout_dev = "nat \<Rightarrow> py_error option"

definition reliable :: stdout_dev where
  "reliable k = None"

definition py_print :: "stdout_dev \<Rightarrow> string \<Rightarrow> event list \<Rightarrow> py_error + event list \<times> stdout_dev" where
  "py_print dev s tr =
     (case dev 0 of
        Some e \<Rightarrow> Inl e
      | None \<Rightarrow> Inr (tr @ [Print s], \<lambda>k. dev (Suc k)))"

text \<open>
  The loop and \<^verbatim>\<open>opposite\<close> over such a device. Neither has a \<^verbatim>\<open>try\<close>: an error raised
  by \<^verbatim>\<open>print\<close> ends the loop and the call.
\<close>

fun while_true_io :: "nat \<Rightarrow> stdout_dev \<Rightarrow> event list \<Rightarrow> event list \<times> outcome" where
  "while_true_io 0 dev tr = (tr, Still_running)"
| "while_true_io (Suc n) dev tr =
     (case py_print dev ''Infinite loop'' tr of
        Inl e \<Rightarrow> (tr, Raised e)
      | Inr (tr', dev') \<Rightarrow> while_true_io n dev' tr')"

definition opposite_io ::
  "nat \<Rightarrow> stdout_dev \<Rightarrow> predictor \<Rightarrow> pyval \<Rightarrow> event list \<Rightarrow> event list \<times> outcome" where
  "opposite_io n dev predict f tr =
     (let tr1 = tr @ [Call_will_freeze f f]
      in if truthy (predict f f) then (tr1, Returned (PyBool False))
         else while_true_io n dev tr1)"

section \<open>Properties\<close>

subsection \<open>The loop and the two branches\<close>

lemma while_true_eq:
  "while_true n tr = (tr @ replicate n (Print ''Infinite loop''), Still_running)"
proof (induction n arbitrary: tr)
  case 0
  show ?case by simp
next
  case (Suc n)
  have "tr @ [Print ''Infinite loop''] @ replicate n (Print ''Infinite loop'')
      = tr @ replicate (Suc n) (Print ''Infinite loop'')"
    by simp
  with Suc show ?case by simp
qed

lemma opposite_truthy:
  "truthy (predict f f) \<Longrightarrow>
   opposite n predict f tr = (tr @ [Call_will_freeze f f], Returned (PyBool False))"
  by (simp add: opposite_def)

lemma opposite_falsy:
  "\<not> truthy (predict f f) \<Longrightarrow>
   opposite n predict f tr =
     (tr @ Call_will_freeze f f # replicate n (Print ''Infinite loop''), Still_running)"
  by (simp add: opposite_def while_true_eq)






subsection \<open>The loop over a device\<close>

lemma while_true_io_reliable: "while_true_io n reliable tr = while_true n tr"
proof (induction n arbitrary: tr)
  case 0
  show ?case by simp
next
  case (Suc n)
  have "(\<lambda>k. reliable (Suc k)) = reliable"
    by (simp add: reliable_def fun_eq_iff)
  with Suc show ?case
    by (simp add: py_print_def reliable_def)
qed

lemma opposite_io_reliable: "opposite_io n reliable predict f tr = opposite n predict f tr"
  by (simp add: opposite_io_def opposite_def Let_def while_true_io_reliable)

lemma first_failure_Suc:
  assumes "dev 0 = None"
  shows "(\<exists>k<Suc n. dev k = Some e \<and> (\<forall>j<k. dev j = None))
       = (\<exists>k<n. dev (Suc k) = Some e \<and> (\<forall>j<k. dev (Suc j) = None))"
proof
  assume "\<exists>k<Suc n. dev k = Some e \<and> (\<forall>j<k. dev j = None)"
  then obtain k where k: "k < Suc n" "dev k = Some e" "\<forall>j<k. dev j = None"
    by blast
  with assms obtain k' where k': "k = Suc k'"
    by (cases k) auto
  with k have "k' < n" "dev (Suc k') = Some e" "\<forall>j<k'. dev (Suc j) = None"
    by auto
  then show "\<exists>k<n. dev (Suc k) = Some e \<and> (\<forall>j<k. dev (Suc j) = None)"
    by blast
next
  assume "\<exists>k<n. dev (Suc k) = Some e \<and> (\<forall>j<k. dev (Suc j) = None)"
  then obtain k where k: "k < n" "dev (Suc k) = Some e" "\<forall>j<k. dev (Suc j) = None"
    by blast
  have "\<forall>j<Suc k. dev j = None"
  proof (intro allI impI)
    fix j assume "j < Suc k"
    with assms k(3) show "dev j = None"
      by (cases j) auto
  qed
  with k show "\<exists>k<Suc n. dev k = Some e \<and> (\<forall>j<k. dev j = None)"
    by (intro exI [of _ "Suc k"]) simp
qed

lemma while_true_io_raised:
  "(snd (while_true_io n dev tr) = Raised e)
     = (\<exists>k<n. dev k = Some e \<and> (\<forall>j<k. dev j = None))"
proof (induction n arbitrary: dev tr)
  case 0
  show ?case by simp
next
  case (Suc n)
  show ?case
  proof (cases "dev 0")
    case None
    then have "snd (while_true_io (Suc n) dev tr)
        = snd (while_true_io n (\<lambda>k. dev (Suc k)) (tr @ [Print ''Infinite loop'']))"
      by (simp add: py_print_def)
    with Suc [of "\<lambda>k. dev (Suc k)" "tr @ [Print ''Infinite loop'']"]
      first_failure_Suc [of dev n e, OF None]
    show ?thesis by simp
  next
    case (Some e')
    then have run: "snd (while_true_io (Suc n) dev tr) = Raised e'"
      by (simp add: py_print_def)
    have "(\<exists>k<Suc n. dev k = Some e \<and> (\<forall>j<k. dev j = None)) = (e' = e)"
    proof
      assume "\<exists>k<Suc n. dev k = Some e \<and> (\<forall>j<k. dev j = None)"
      then obtain k where k: "dev k = Some e" "\<forall>j<k. dev j = None"
        by blast
      with Some have "k = 0"
        by (cases k) auto
      with k Some show "e' = e" by simp
    next
      assume "e' = e"
      with Some show "\<exists>k<Suc n. dev k = Some e \<and> (\<forall>j<k. dev j = None)"
        by (intro exI [of _ 0]) simp
    qed
    with run show ?thesis by simp
  qed
qed

subsection \<open>No predictor is right about \<^verbatim>\<open>opposite(opposite)\<close>\<close>


subsection \<open>The two branches of \<^verbatim>\<open>opposite\<close>\<close>

text \<open>
  C2. If the call \<^verbatim>\<open>will_freeze(f, f)\<close> answers \<^verbatim>\<open>True\<close>, then \<^verbatim>\<open>opposite(f)\<close> returns
  at once: whatever the bound on loop iterations (also none at all), the run has ended
  with a return, and it has done nothing but the call of the predictor.
\<close>

theorem opposite_returns_on_True:
  "predict f f = PyBool True \<Longrightarrow>
   opposite n predict f tr = (tr @ [Call_will_freeze f f], Returned (PyBool False))"
  by (simp add: opposite_truthy)

theorem opposite_returns_on_True_witness:
  "bool_predictor (\<lambda>g x. True) (PyFun Opposite) (PyFun Opposite) = PyBool True
   \<and> opposite 0 (bool_predictor (\<lambda>g x. True)) (PyFun Opposite) []
     = ([Call_will_freeze (PyFun Opposite) (PyFun Opposite)], Returned (PyBool False))"
proof -
  have h: "bool_predictor (\<lambda>g x. True) (PyFun Opposite) (PyFun Opposite) = PyBool True"
    by (simp add: bool_predictor_def)
  from opposite_returns_on_True
    [of "bool_predictor (\<lambda>g x. True)" "PyFun Opposite" 0 "[]", OF h] h
  show ?thesis by simp
qed





subsection \<open>The predictor as shipped\<close>

text \<open>
  C5. \<^verbatim>\<open>will_freeze\<close> is not implemented: for every \<open>f\<close> and \<open>x\<close> the call computes nothing
  and returns \<^verbatim>\<open>None\<close>, which is not a boolean, whatever the annotation \<^verbatim>\<open>-> bool\<close> says.
\<close>

theorem will_freeze_returns_None:
  "will_freeze f x = PyNone \<and> (\<forall>b. will_freeze f x \<noteq> PyBool b)"
  by (simp add: will_freeze_def)


text \<open>
  C10. The call \<^verbatim>\<open>will_freeze(f, x)\<close> ends for all \<open>f\<close> and \<open>x\<close>: whatever the bound on
  loop iterations, also none, the run returns (the value that \<^verbatim>\<open>opposite\<close> tests), and
  the actions done are those done before the call: it has not called \<open>f\<close> nor anything
  else, and has printed nothing. Running \<open>f\<close> on \<open>x\<close> would show: for \<^verbatim>\<open>f = opposite\<close> the
  call \<open>f(x)\<close> leaves actions behind and is not finished within any bound.
\<close>

theorem will_freeze_run_returns:
  "will_freeze_run n f x tr = (tr, Returned PyNone)
   \<and> snd (will_freeze_run n f x tr) = Returned (will_freeze f x)
   \<and> snd (py_call n will_freeze (PyFun Opposite) x tr) = Still_running
   \<and> fst (py_call n will_freeze (PyFun Opposite) x tr) \<noteq> tr
   \<and> will_freeze_run n (PyFun Opposite) x tr \<noteq> py_call n will_freeze (PyFun Opposite) x tr"
proof -
  have "\<not> truthy (will_freeze x x)"
    by (simp add: will_freeze_def)
  then have "py_call n will_freeze (PyFun Opposite) x tr
      = (tr @ Call_will_freeze x x # replicate n (Print ''Infinite loop''), Still_running)"
    by (simp add: opposite_falsy)
  then show ?thesis
    by (simp add: will_freeze_run_def will_freeze_def)
qed

subsection \<open>Effects and errors\<close>



text \<open>
  C7, as the specification states it, fails: \<^verbatim>\<open>opposite\<close> can end with an error. With
  the predictor as shipped and a standard output whose writes fail, the first \<^verbatim>\<open>print\<close>
  raises and the error leaves \<^verbatim>\<open>opposite\<close>.
\<close>

theorem opposite_raises_counterexample:
  "snd (opposite_io 1 (\<lambda>k. Some BrokenPipeError) will_freeze PyNone []) = Raised BrokenPipeError"
  by (simp add: opposite_io_def will_freeze_def py_print_def)

text \<open>
  C7, amended. The code raises no error of its own and handles none.
  \<^verbatim>\<open>will_freeze(f, x)\<close> returns \<^verbatim>\<open>None\<close> and never raises. \<^verbatim>\<open>opposite(f)\<close> ends with an
  error \<open>e\<close> exactly when the predictor's result is falsy and a \<^verbatim>\<open>print\<close> of the loop
  raises \<open>e\<close> after the earlier ones succeeded: the error is not caught. While every
  \<^verbatim>\<open>print\<close> succeeds the run is the one described above, and it either returns, whatever
  the bound on the loop, or is still in the loop after every number of iterations.
\<close>

theorem opposite_raises_only_from_print:
  "snd (will_freeze_run n f x tr) = Returned PyNone
   \<and> (snd (opposite_io n dev predict f tr) = Raised e)
     = (\<not> truthy (predict f f) \<and> (\<exists>k<n. dev k = Some e \<and> (\<forall>j<k. dev j = None)))
   \<and> opposite_io n reliable predict f tr = opposite n predict f tr
   \<and> ((\<forall>m. snd (opposite_io m reliable predict f tr) = Returned (PyBool False))
      \<or> (\<forall>m. snd (opposite_io m reliable predict f tr) = Still_running))"
proof -
  have wf_run: "snd (will_freeze_run n f x tr) = Returned PyNone"
    by (simp add: will_freeze_run_def)
  have raised: "(snd (opposite_io n dev predict f tr) = Raised e)
      = (\<not> truthy (predict f f) \<and> (\<exists>k<n. dev k = Some e \<and> (\<forall>j<k. dev j = None)))"
  proof (cases "truthy (predict f f)")
    case True
    then show ?thesis by (simp add: opposite_io_def)
  next
    case False
    then show ?thesis by (simp add: opposite_io_def while_true_io_raised)
  qed
  have ideal: "opposite_io m reliable predict f tr = opposite m predict f tr" for m
    by (rule opposite_io_reliable)
  have "(\<forall>m. snd (opposite m predict f tr) = Returned (PyBool False))
      \<or> (\<forall>m. snd (opposite m predict f tr) = Still_running)"
    by (cases "truthy (predict f f)") (simp_all add: opposite_truthy opposite_falsy)
  with wf_run raised ideal show ?thesis by simp
qed

theorem opposite_raises_only_from_print_witness:
  "snd (opposite_io 5 (\<lambda>k. if k = 2 then Some BrokenPipeError else None) will_freeze PyNone [])
     = Raised BrokenPipeError
   \<and> \<not> truthy (will_freeze PyNone PyNone)
   \<and> (if (2::nat) = 2 then Some BrokenPipeError else None) = Some BrokenPipeError
   \<and> (if (0::nat) = 2 then Some BrokenPipeError else None) = None
   \<and> (if (1::nat) = 2 then Some BrokenPipeError else None) = None"
proof -
  let ?dev = "\<lambda>k::nat. if k = 2 then Some BrokenPipeError else None"
  have fails: "\<not> truthy (will_freeze PyNone PyNone)
      \<and> (\<exists>k<5. ?dev k = Some BrokenPipeError \<and> (\<forall>j<k. ?dev j = None))"
    by (simp add: will_freeze_def)
  from opposite_raises_only_from_print [of 5 PyNone PyNone "[]" ?dev will_freeze BrokenPipeError]
  have "(snd (opposite_io 5 ?dev will_freeze PyNone []) = Raised BrokenPipeError)
      = (\<not> truthy (will_freeze PyNone PyNone)
         \<and> (\<exists>k<5. ?dev k = Some BrokenPipeError \<and> (\<forall>j<k. ?dev j = None)))"
    by blast
  with fails have "snd (opposite_io 5 ?dev will_freeze PyNone []) = Raised BrokenPipeError"
    by blast
  then show ?thesis by (simp add: will_freeze_def)
qed

text \<open>
  C9. When \<^verbatim>\<open>opposite(f)\<close> returns, the value returned is \<^verbatim>\<open>False\<close> and no other.
\<close>

theorem opposite_returns_False:
  "snd (opposite n predict f tr) = Returned v \<Longrightarrow> v = PyBool False"
  by (cases "truthy (predict f f)") (simp_all add: opposite_truthy opposite_falsy)

theorem opposite_returns_False_witness:
  "snd (opposite 0 (bool_predictor (\<lambda>g x. True)) PyNone []) = Returned (PyBool False)
   \<and> PyBool False = PyBool False"
proof -
  have h: "snd (opposite 0 (bool_predictor (\<lambda>g x. True)) PyNone []) = Returned (PyBool False)"
    by (simp add: opposite_def bool_predictor_def)
  from opposite_returns_False [OF h] h show ?thesis by simp
qed

end
